theory Spec2Isabelle
  imports Main "HOL-Library.Word"
begin

unbundle bit_operations_syntax

section \<open>JavaScript values used by the NDEF record decoder\<close>

text \<open>
  The decoder of \<open>NFCNDEFReaderSessionDelegateImpl\<close> works on three kinds of values:
  the bytes of an \<open>NSData\<close> buffer (a \<open>Uint8Array\<close>, here \<open>8 word\<close>), JavaScript
  strings and JavaScript numbers. Every string the decoder builds consists of code units
  below 256 (hexadecimal digits, characters made by \<open>String.fromCharCode\<close> from one byte,
  and the ASCII prefixes of the protocol table), so a string is a \<open>char list\<close> with one
  \<open>char\<close> per code unit. A number that may be \<open>NaN\<close> is an \<open>option\<close> with \<open>None\<close> for
  \<open>NaN\<close>; a value that may be \<open>undefined\<close> is an \<open>option\<close> with \<open>None\<close> for
  \<open>undefined\<close>.
\<close>

type_synonym byte = "8 word"

text \<open>One digit of \<open>Number.prototype.toString(16)\<close>.\<close>

definition hexDigit :: "nat \<Rightarrow> char" where
  "hexDigit d = ''0123456789abcdef'' ! d"

text \<open>\<open>x.toString(16)\<close> for a non-negative integer: lowercase, no padding.\<close>

fun toString16 :: "nat \<Rightarrow> string" where
  "toString16 n = (if n < 16 then [hexDigit n] else toString16 (n div 16) @ [hexDigit (n mod 16)])"

declare toString16.simps [simp del]

text \<open>\<open>s.slice(-2)\<close>: the last two code units (all of \<open>s\<close> when it is shorter).\<close>

definition sliceLast2 :: "string \<Rightarrow> string" where
  "sliceLast2 s = drop (length s - 2) s"

text \<open>The arrow function \<open>(x) => ('00' + x.toString(16)).slice(-2)\<close>.\<close>

definition hexOfByte :: "byte \<Rightarrow> string" where
  "hexOfByte x = sliceLast2 (''00'' @ toString16 (unat x))"

text \<open>\<open>buf2hexString\<close>: the map over the \<open>Uint8Array\<close>, joined with the empty string.\<close>

definition buf2hexString :: "byte list \<Rightarrow> string" where
  "buf2hexString buffer = concat (map hexOfByte buffer)"

text \<open>\<open>buf2hexArray\<close>: the same map, kept as an array of two-character strings.\<close>

definition buf2hexArray :: "byte list \<Rightarrow> string list" where
  "buf2hexArray buffer = map hexOfByte buffer"

text \<open>
  \<open>nsdataToHexString\<close> and \<open>nsdataToHexArray\<close>: \<open>interop.bufferFromData\<close> hands over the
  bytes of the \<open>NSData\<close> unchanged.
\<close>

definition nsdataToHexString :: "byte list \<Rightarrow> string" where
  "nsdataToHexString d = buf2hexString d"

definition nsdataToHexArray :: "byte list \<Rightarrow> string list" where
  "nsdataToHexArray d = buf2hexArray d"

text \<open>
  The value of one character as a digit of radix 16, as \<open>parseInt\<close> reads it (either
  case); \<open>None\<close> for a character that is no such digit.
\<close>

definition hexValue :: "char \<Rightarrow> nat option" where
  "hexValue c =
     (let k = of_char c :: nat in
      if 48 \<le> k \<and> k \<le> 57 then Some (k - 48)
      else if 97 \<le> k \<and> k \<le> 102 then Some (k - 87)
      else if 65 \<le> k \<and> k \<le> 70 then Some (k - 55)
      else None)"

text \<open>
  \<open>parseInt(s, 16)\<close> on the strings \<open>hex2a\<close> passes to it, which are cut out of a string
  of hexadecimal digits: the longest prefix of digits is read, and the result is \<open>NaN\<close>
  when that prefix is empty. (White space, a sign and a \<open>0x\<close> prefix, which
  \<open>parseInt\<close> would skip, are no hexadecimal digits and are read as the end of the
  number.)
\<close>

fun parseDigits16 :: "nat \<Rightarrow> string \<Rightarrow> nat" where
  "parseDigits16 acc [] = acc"
| "parseDigits16 acc (c # cs) =
     (case hexValue c of None \<Rightarrow> acc | Some d \<Rightarrow> parseDigits16 (acc * 16 + d) cs)"

definition parseInt16 :: "string \<Rightarrow> nat option" where
  "parseInt16 s =
     (case s of [] \<Rightarrow> None
      | c # cs \<Rightarrow> (case hexValue c of None \<Rightarrow> None | Some d \<Rightarrow> Some (parseDigits16 d cs)))"

text \<open>
  \<open>String.fromCharCode\<close>: \<open>NaN\<close> gives the code unit 0. The argument is below 256
  wherever \<open>hex2a\<close> is applied to the output of \<open>buf2hexString\<close> (lemma
  \<open>parseInt16_hexOfByte\<close>), so the 8-bit \<open>char\<close> holds the code unit.
\<close>

definition fromCharCode :: "nat option \<Rightarrow> char" where
  "fromCharCode n = (case n of None \<Rightarrow> char_of (0::nat) | Some k \<Rightarrow> char_of k)"

text \<open>\<open>hex.substr(i, 2)\<close>.\<close>

definition substr2 :: "string \<Rightarrow> nat \<Rightarrow> string" where
  "substr2 hex i = take 2 (drop i hex)"

text \<open>
  \<open>hex2a\<close>: the loop \<open>for (let i = 0; i < hex.length; i += 2) str += ...\<close>, with the
  loop variable and the accumulator as arguments.
\<close>

function hex2a_loop :: "string \<Rightarrow> nat \<Rightarrow> string \<Rightarrow> string" where
  "hex2a_loop hex i str =
     (if i < length hex
      then hex2a_loop hex (i + 2) (str @ [fromCharCode (parseInt16 (substr2 hex i))])
      else str)"
  by pat_completeness auto
termination
  by (relation "measure (\<lambda>(hex, i, str). length hex - i)") auto

declare hex2a_loop.simps [simp del]

definition hex2a :: "string \<Rightarrow> string" where
  "hex2a hexx = hex2a_loop hexx 0 []"

definition nsdataToASCIIString :: "byte list \<Rightarrow> string" where
  "nsdataToASCIIString d = hex2a (nsdataToHexString d)"

text \<open>\<open>'0123456789abcdefgh'.indexOf(c)\<close>: the position of \<open>c\<close>, or \<open>-1\<close>.\<close>

fun indexOf :: "string \<Rightarrow> char \<Rightarrow> int" where
  "indexOf [] c = -1"
| "indexOf (d # ds) c = (if d = c then 0 else (let r = indexOf ds c in if r < 0 then -1 else r + 1))"

text \<open>\<open>toLowerCase\<close> on one code unit below 256: only \<open>A\<close> to \<open>Z\<close> change here.\<close>

definition lowerChar :: "char \<Rightarrow> char" where
  "lowerChar c = (let k = of_char c :: nat in if 65 \<le> k \<and> k \<le> 90 then char_of (k + 32) else c)"

definition toLowerCase :: "string \<Rightarrow> string" where
  "toLowerCase s = map lowerChar s"

text \<open>The digit loop shared by \<open>hexToDec\<close> and \<open>hexToDecArray\<close>.\<close>

definition hexDigitsToDec :: "string \<Rightarrow> int" where
  "hexDigitsToDec hex =
     foldl (\<lambda>result c. result * 16 + indexOf ''0123456789abcdefgh'' c) 0 (toLowerCase hex)"

text \<open>\<open>hexToDec\<close>: \<open>undefined\<close> is returned for \<open>undefined\<close>.\<close>

definition hexToDec :: "string option \<Rightarrow> int option" where
  "hexToDec hex = (case hex of None \<Rightarrow> None | Some h \<Rightarrow> Some (hexDigitsToDec h))"

text \<open>
  \<open>Number.prototype.toString()\<close> of a non-negative integer (decimal, no leading zero),
  used by \<open>JSON.stringify\<close> and by the test whether a property key is an array index.
\<close>

definition decDigit :: "nat \<Rightarrow> char" where
  "decDigit d = ''0123456789'' ! d"

fun decimalString :: "nat \<Rightarrow> string" where
  "decimalString n = (if n < 10 then [decDigit n] else decimalString (n div 10) @ [decDigit (n mod 10)])"

declare decimalString.simps [simp del]

definition intString :: "int \<Rightarrow> string" where
  "intString k = (if k < 0 then CHR ''-'' # decimalString (nat (- k)) else decimalString (nat k))"

text \<open>\<open>JSON.stringify\<close> of an array of integers.\<close>

fun joinComma :: "string list \<Rightarrow> string" where
  "joinComma [] = []"
| "joinComma [s] = s"
| "joinComma (s # t # ss) = s @ '','' @ joinComma (t # ss)"

definition stringifyInts :: "int list \<Rightarrow> string" where
  "stringifyInts ks = ''['' @ joinComma (map intString ks) @ '']''"

text \<open>
  \<open>hexToDecArray\<close>: every element goes through the digit loop, and the array of the
  results is returned as its JSON text.
\<close>

definition hexToDecArray :: "string list \<Rightarrow> string" where
  "hexToDecArray hexArray = stringifyInts (map hexDigitsToDec hexArray)"

text \<open>The value of a decimal digit; \<open>None\<close> for any other character.\<close>

definition decValue :: "char \<Rightarrow> nat option" where
  "decValue c = (let k = of_char c :: nat in if 48 \<le> k \<and> k \<le> 57 then Some (k - 48) else None)"

fun parseDecimal :: "nat \<Rightarrow> string \<Rightarrow> nat option" where
  "parseDecimal acc [] = Some acc"
| "parseDecimal acc (c # cs) =
     (case decValue c of None \<Rightarrow> None | Some d \<Rightarrow> parseDecimal (acc * 10 + d) cs)"

text \<open>
  The unary \<open>+\<close> of \<open>+payloadAsHexArray[0]\<close>, that is \<open>ToNumber\<close>: \<open>undefined\<close> gives
  \<open>NaN\<close>, the empty string gives 0, a string of decimal digits gives its decimal value.
  The operand is \<open>undefined\<close> or two characters out of \<open>0123456789abcdef\<close>; of the
  other forms \<open>ToNumber\<close> accepts (white space, a sign, a fraction, an exponent with
  digits, \<open>Infinity\<close>, the prefixes \<open>0x\<close>, \<open>0o\<close> and \<open>0b\<close> followed by digits)
  none has that shape, so every other string gives \<open>NaN\<close>.
\<close>

definition toNumber :: "string option \<Rightarrow> nat option" where
  "toNumber v = (case v of None \<Rightarrow> None | Some s \<Rightarrow> parseDecimal 0 s)"

text \<open>\<open>n + 1\<close> on a number that may be \<open>NaN\<close>.\<close>

definition plusOne :: "nat option \<Rightarrow> nat option" where
  "plusOne n = (case n of None \<Rightarrow> None | Some k \<Rightarrow> Some (k + 1))"

text \<open>\<open>s.substring(n)\<close>: \<open>NaN\<close> counts as 0, and a start beyond the end gives \<open>''\<close>.\<close>

definition substring :: "string \<Rightarrow> nat option \<Rightarrow> string" where
  "substring s n = (case n of None \<Rightarrow> s | Some k \<Rightarrow> drop k s)"

text \<open>\<open>s.slice(1)\<close>.\<close>

definition slice1 :: "string \<Rightarrow> string" where
  "slice1 s = drop 1 s"

text \<open>\<open>xs[0]\<close> on an array: \<open>undefined\<close> when the array is empty.\<close>

definition first :: "'a list \<Rightarrow> 'a option" where
  "first xs = (case xs of [] \<Rightarrow> None | x # _ \<Rightarrow> Some x)"

text \<open>
  \<open>arr[key]\<close> for an array and a key that is a string or \<open>undefined\<close>. A property key
  is an array index only when it is the canonical decimal text of a number, the text
  \<open>Number.prototype.toString\<close> gives back (\<open>"2"\<close> is the index 2, \<open>"02"\<close> is
  not); any other key names an ordinary property. An array has no ordinary property
  whose name is \<open>undefined\<close> or consists of two hexadecimal digits, so the lookup gives
  \<open>undefined\<close> there, as it does for an index beyond the end.
\<close>

definition arrayIndex :: "string \<Rightarrow> nat option" where
  "arrayIndex key =
     (case key of [] \<Rightarrow> None
      | _ # _ \<Rightarrow> (case parseDecimal 0 key of None \<Rightarrow> None
                  | Some n \<Rightarrow> if decimalString n = key \<and> n < 4294967295 then Some n else None))"

definition getProperty :: "'a list \<Rightarrow> string option \<Rightarrow> 'a option" where
  "getProperty arr key =
     (case key of None \<Rightarrow> None
      | Some k \<Rightarrow> (case arrayIndex k of None \<Rightarrow> None
                   | Some n \<Rightarrow> if n < length arr then Some (arr ! n) else None))"

section \<open>The NDEF record decoder\<close>

text \<open>
  \<open>NFCNDEFPayload\<close> as CoreNFC declares it (the record handed to \<open>recordToJSON\<close>) and
  \<open>NfcNdefRecord\<close>, the object \<open>recordToJSON\<close> returns. A prime marks a field whose
  source name is taken in Isabelle: \<open>identifier'\<close> is \<open>identifier\<close>, and \<open>type'\<close>,
  \<open>id'\<close>, \<open>payload'\<close> are the fields \<open>type\<close>, \<open>id\<close>, \<open>payload\<close> of the result.
\<close>

record NFCNDEFPayload =
  typeNameFormat :: nat
  type :: "byte list"
  identifier' :: "byte list"
  payload :: "byte list"

record NfcNdefRecord =
  tnf :: nat
  type' :: "int option"
  id' :: string
  payload' :: string
  payloadAsHexString :: string
  payloadAsStringWithPrefix :: string
  payloadAsString :: string

text \<open>
  Modelled from the spec: the table \<open>NfcUriProtocols\<close>, which \<open>recordToJSON\<close> imports
  from \<open>./common\<close>, a file that is not among the sources. The spec describes it as the
  fixed lookup table of the NFC Forum URI Record Type Definition, entry 0 the empty
  prefix, entry 1 \<open>http://www.\<close>, entry 2 \<open>https://www.\<close>, entry 3 \<open>http://\<close>, entry 4
  \<open>https://\<close>, and so on: an array indexed by the prefix code. \<open>recordToJSON\<close> takes
  the table as its first argument, so that the theorems about it hold for every table.
\<close>

definition NfcUriProtocols :: "string list" where
  "NfcUriProtocols =
     ['''', ''http://www.'', ''https://www.'', ''http://'', ''https://'', ''tel:'', ''mailto:'',
      ''ftp://anonymous:anonymous@'', ''ftp://ftp.'', ''ftps://'', ''sftp://'', ''smb://'',
      ''nfs://'', ''ftp://'', ''dav://'', ''news:'', ''telnet://'', ''imap:'', ''rtsp://'', ''urn:'',
      ''pop:'', ''sip:'', ''sips:'', ''tftp:'', ''btspp://'', ''btl2cap://'', ''btgoep://'',
      ''tcpobex://'', ''irdaobex://'', ''file://'', ''urn:epc:id:'', ''urn:epc:tag:'',
      ''urn:epc:pat:'', ''urn:epc:raw:'', ''urn:epc:'', ''urn:nfc:'']"

text \<open>\<open>if (!prefix) prefix = ''\<close>: \<open>undefined\<close> and the empty string both give \<open>''\<close>.\<close>

definition orEmpty :: "string option \<Rightarrow> string" where
  "orEmpty prefix = (case prefix of None \<Rightarrow> [] | Some p \<Rightarrow> p)"

text \<open>
  \<open>recordToJSON\<close>, statement by statement. \<open>decimalType\<close> is \<open>undefined\<close> for a record
  whose type is empty, and then neither branch is taken.
\<close>

definition recordToJSON :: "string list \<Rightarrow> NFCNDEFPayload \<Rightarrow> NfcNdefRecord" where
  "recordToJSON protocols record =
     (let payloadAsHexArray = nsdataToHexArray (payload record);
          payloadAsString0 = nsdataToASCIIString (payload record);
          payloadAsStringWithPrefix0 = payloadAsString0;
          recordType = nsdataToHexArray (type record);
          decimalType = hexToDec (first recordType);
          payloadAsString1 =
            (if decimalType = Some 84 then
               (let languageCodeLength = toNumber (first payloadAsHexArray)
                in substring payloadAsStringWithPrefix0 (plusOne languageCodeLength))
             else if decimalType = Some 85 then
               (let prefix = orEmpty (getProperty protocols (first payloadAsHexArray))
                in prefix @ slice1 payloadAsString0)
             else payloadAsString0)
      in \<lparr> tnf = typeNameFormat record,
           type' = decimalType,
           id' = hexToDecArray (nsdataToHexArray (identifier' record)),
           payload' = hexToDecArray payloadAsHexArray,
           payloadAsHexString = nsdataToHexString (payload record),
           payloadAsStringWithPrefix = payloadAsStringWithPrefix0,
           payloadAsString = payloadAsString1 \<rparr>)"

text \<open>\<open>messageToJSON\<close>: the records of the message in order.\<close>

definition messageToJSON :: "string list \<Rightarrow> NFCNDEFPayload list \<Rightarrow> NfcNdefRecord list" where
  "messageToJSON protocols records = map (recordToJSON protocols) records"

text \<open>\<open>ndefToJson\<close>: \<open>null\<close> for the message \<open>null\<close>.\<close>

definition ndefToJson :: "string list \<Rightarrow> NFCNDEFPayload list option \<Rightarrow> NfcNdefRecord list option" where
  "ndefToJson protocols message =
     (case message of None \<Rightarrow> None | Some m \<Rightarrow> Some (messageToJSON protocols m))"

section \<open>The native manager: \<open>NFCManager\<close> (Swift)\<close>

text \<open>
  \<open>NFCManager\<close> keeps six stored properties and talks to three things outside itself:
  the CoreNFC reader sessions it creates and invalidates, the main dispatch queue, on
  which it places the blocks that call back into TypeScript, and the TypeScript
  callbacks themselves. The model keeps the stored properties in the record
  \<open>NFCManager\<close> and the outside in the record \<open>runtime\<close>: the blocks dispatched and not
  yet run, the callback invocations made so far, and the \<open>invalidate()\<close> calls made so
  far. A reader session is the number of its creation, a TypeScript callback is a
  number chosen by the caller. Alert messages and log output are left out: nothing
  reads them back.
\<close>

datatype NFCSessionMode = Scan | Write

text \<open>
  The dictionary \<open>emitResult\<close> serialises to JSON and the TypeScript side parses back
  into \<open>NFCResult\<close>: the optional entries are present exactly when the value is not
  \<open>nil\<close>. (\<open>text'\<close> is the entry \<open>text\<close>.)
\<close>

record NFCResult =
  success :: bool
  message :: string
  url :: "string option"
  text' :: "string option"
  raw :: "string option"
  errorCode :: "string option"

text \<open>
  A block waiting on the main queue: the block of \<open>emitResult\<close>, which holds the JSON
  text, or the block of \<open>emitAndClose\<close>, which holds the session to invalidate.
\<close>

datatype block = EmitBlock NFCResult | CloseBlock nat

record NFCManager =
  readerSession :: "nat option"
  sessionMode :: NFCSessionMode
  writeUrl :: "string option"
  resultCallback :: "nat option"
  hasEmittedResult :: bool
  isSessionActive :: bool

record runtime =
  manager :: NFCManager
  mainQueue :: "block list"
  calls :: "(nat \<times> NFCResult) list"
  invalidated :: "nat list"
  created :: nat

text \<open>
  What the platform answers when the manager asks: the value of
  \<open>NFCNDEFReaderSession.readingAvailable\<close>, and whether creating a reader session
  gives an object (the source guards against \<open>nil\<close>).
\<close>

record platform =
  readingAvailable :: bool
  sessionInit :: bool

definition initialManager :: NFCManager where
  "initialManager =
     \<lparr> readerSession = None, sessionMode = Scan, writeUrl = None, resultCallback = None,
       hasEmittedResult = False, isSessionActive = False \<rparr>"

definition initialRuntime :: runtime where
  "initialRuntime =
     \<lparr> manager = initialManager, mainQueue = [], calls = [], invalidated = [], created = 0 \<rparr>"

text \<open>The result every failure path builds: no url, text or raw, and an error code.\<close>

definition failure :: "string \<Rightarrow> string \<Rightarrow> NFCResult" where
  "failure msg code =
     \<lparr> success = False, message = msg, url = None, text' = None, raw = None, errorCode = Some code \<rparr>"

text \<open>\<open>session.invalidate()\<close> on a reader session.\<close>

definition invalidate :: "nat \<Rightarrow> runtime \<Rightarrow> runtime" where
  "invalidate s w = w\<lparr> invalidated := invalidated w @ [s] \<rparr>"

text \<open>\<open>resetState\<close>.\<close>

definition resetState :: "runtime \<Rightarrow> runtime" where
  "resetState w = w\<lparr> manager := (manager w)\<lparr> hasEmittedResult := False, isSessionActive := False \<rparr> \<rparr>"

text \<open>
  \<open>emitResult\<close>: nothing when a result has been emitted; otherwise the flag is set and
  the block that will call the callback is dispatched to the main queue.
\<close>

definition emitResult :: "NFCResult \<Rightarrow> runtime \<Rightarrow> runtime" where
  "emitResult r w =
     (if hasEmittedResult (manager w) then w
      else w\<lparr> manager := (manager w)\<lparr> hasEmittedResult := True \<rparr>,
              mainQueue := mainQueue w @ [EmitBlock r] \<rparr>)"

text \<open>\<open>emitResultIfNeeded\<close>.\<close>

definition emitResultIfNeeded :: "NFCResult \<Rightarrow> runtime \<Rightarrow> runtime" where
  "emitResultIfNeeded r w = (if hasEmittedResult (manager w) then w else emitResult r w)"

text \<open>
  Running a block. The block of \<open>emitResult\<close> reads \<open>self.resultCallback\<close> when it
  runs, calls it if it is not \<open>nil\<close>, and clears it. The block of \<open>emitAndClose\<close>
  invalidates its session and clears the session reference and the active flag.
\<close>

fun runBlock :: "block \<Rightarrow> runtime \<Rightarrow> runtime" where
  "runBlock (EmitBlock jsonStr) w =
     (let w1 = (case resultCallback (manager w) of
                  None \<Rightarrow> w
                | Some cb \<Rightarrow> w\<lparr> calls := calls w @ [(cb, jsonStr)] \<rparr>)
      in w1\<lparr> manager := (manager w1)\<lparr> resultCallback := None \<rparr> \<rparr>)"
| "runBlock (CloseBlock s) w =
     (let w1 = invalidate s w
      in w1\<lparr> manager := (manager w1)\<lparr> readerSession := None, isSessionActive := False \<rparr> \<rparr>)"

text \<open>\<open>startSession\<close>.\<close>

definition startSession :: "platform \<Rightarrow> NFCSessionMode \<Rightarrow> runtime \<Rightarrow> runtime" where
  "startSession p mode w =
     (let w1 = (case readerSession (manager w) of
                  None \<Rightarrow> w
                | Some s \<Rightarrow> (let v = invalidate s w in v\<lparr> manager := (manager v)\<lparr> readerSession := None \<rparr> \<rparr>))
      in if \<not> readingAvailable p
         then emitResult (failure ''NFC not supported on this device.'' ''NFC_NOT_AVAILABLE'') w1
         else
           (let w2 = w1\<lparr> manager := (manager w1)\<lparr> sessionMode := mode, hasEmittedResult := False \<rparr> \<rparr>
            in if \<not> sessionInit p
               then emitResult (failure ''Failed to create NFC session.'' ''SESSION_CREATE_FAILED'')
                      (w2\<lparr> manager := (manager w2)\<lparr> readerSession := None \<rparr> \<rparr>)
               else w2\<lparr> manager := (manager w2)\<lparr> readerSession := Some (created w2), isSessionActive := True \<rparr>,
                        created := created w2 + 1 \<rparr>))"

text \<open>\<open>scanWithCallback\<close> and \<open>writeWithUrlCallback\<close>.\<close>

definition scanWithCallback :: "platform \<Rightarrow> nat \<Rightarrow> runtime \<Rightarrow> runtime" where
  "scanWithCallback p callback w =
     (let w1 = resetState w
      in startSession p Scan (w1\<lparr> manager := (manager w1)\<lparr> resultCallback := Some callback, writeUrl := None \<rparr> \<rparr>))"

definition writeWithUrlCallback :: "platform \<Rightarrow> string \<Rightarrow> nat \<Rightarrow> runtime \<Rightarrow> runtime" where
  "writeWithUrlCallback p u callback w =
     (let w1 = resetState w
      in startSession p Write (w1\<lparr> manager := (manager w1)\<lparr> resultCallback := Some callback, writeUrl := Some u \<rparr> \<rparr>))"

text \<open>\<open>cleanupSession\<close>.\<close>

definition cleanupSession :: "runtime \<Rightarrow> runtime" where
  "cleanupSession w =
     (let w1 = (case readerSession (manager w) of None \<Rightarrow> w | Some s \<Rightarrow> invalidate s w)
      in w1\<lparr> manager := (manager w1)\<lparr> readerSession := None, isSessionActive := False \<rparr> \<rparr>)"

text \<open>\<open>stopSession\<close>.\<close>

definition stopSession :: "runtime \<Rightarrow> runtime" where
  "stopSession w =
     cleanupSession
       (if \<not> hasEmittedResult (manager w) \<and> resultCallback (manager w) \<noteq> None
        then emitResult (failure ''Session stopped by user.'' ''USER_STOPPED'') w
        else w)"

text \<open>\<open>isAvailable\<close> and \<open>getIsSessionActive\<close>.\<close>

definition isAvailable :: "platform \<Rightarrow> bool" where
  "isAvailable p = readingAvailable p"

definition getIsSessionActive :: "runtime \<Rightarrow> bool" where
  "getIsSessionActive w = isSessionActive (manager w)"

text \<open>
  The error handed to \<open>readerSession(_:didInvalidateWithError:)\<close>: an \<open>NFCReaderError\<close>
  with its code and its \<open>localizedDescription\<close>, or any other error with its
  description. \<open>otherReaderErrorCode\<close> stands for every code the \<open>switch\<close> does not
  name (its \<open>@unknown default\<close>).
\<close>

datatype NFCReaderErrorCode =
    readerSessionInvalidationErrorUserCanceled
  | readerSessionInvalidationErrorFirstNDEFTagRead
  | readerSessionInvalidationErrorSessionTimeout
  | readerSessionInvalidationErrorSessionTerminatedUnexpectedly
  | readerSessionInvalidationErrorSystemIsBusy
  | readerTransceiveErrorTagConnectionLost
  | readerTransceiveErrorTagResponseError
  | readerTransceiveErrorTagNotConnected
  | readerTransceiveErrorPacketTooLong
  | readerTransceiveErrorRetryExceeded
  | ndefReaderSessionErrorTagNotWritable
  | ndefReaderSessionErrorTagUpdateFailure
  | ndefReaderSessionErrorTagSizeTooSmall
  | ndefReaderSessionErrorZeroLengthMessage
  | otherReaderErrorCode

datatype sessionError = NFCReaderError NFCReaderErrorCode string | OtherError string

text \<open>
  \<open>readerSession(_:didInvalidateWithError:)\<close>: the session reference and the active flag
  are cleared, then the \<open>switch\<close> over the code, in the order of the source.
\<close>

definition didInvalidateWithError :: "sessionError \<Rightarrow> runtime \<Rightarrow> runtime" where
  "didInvalidateWithError err w =
     (let w1 = w\<lparr> manager := (manager w)\<lparr> readerSession := None, isSessionActive := False \<rparr> \<rparr>
      in case err of
           NFCReaderError code description \<Rightarrow>
             (case code of
                readerSessionInvalidationErrorUserCanceled \<Rightarrow>
                  emitResultIfNeeded (failure ''Cancelled by user.'' ''USER_CANCELLED'') w1
              | readerSessionInvalidationErrorFirstNDEFTagRead \<Rightarrow> w1
              | readerSessionInvalidationErrorSessionTimeout \<Rightarrow>
                  emitResultIfNeeded (failure ''Session timed out. Please try again.'' ''SESSION_TIMEOUT'') w1
              | readerSessionInvalidationErrorSessionTerminatedUnexpectedly \<Rightarrow>
                  emitResultIfNeeded (failure ''Session terminated unexpectedly.'' ''SESSION_TERMINATED'') w1
              | readerSessionInvalidationErrorSystemIsBusy \<Rightarrow>
                  emitResultIfNeeded (failure ''NFC is busy. Please try again.'' ''SYSTEM_BUSY'') w1
              | readerTransceiveErrorTagConnectionLost \<Rightarrow>
                  emitResultIfNeeded
                    (failure ''Tag connection lost. Hold steady and try again.'' ''CONNECTION_LOST'') w1
              | readerTransceiveErrorTagResponseError \<Rightarrow>
                  emitResultIfNeeded (failure ''Tag response error.'' ''TAG_RESPONSE_ERROR'') w1
              | readerTransceiveErrorTagNotConnected \<Rightarrow>
                  emitResultIfNeeded (failure ''Tag not connected.'' ''TAG_NOT_CONNECTED'') w1
              | readerTransceiveErrorPacketTooLong \<Rightarrow>
                  emitResultIfNeeded (failure ''Data too large for this tag.'' ''PACKET_TOO_LONG'') w1
              | readerTransceiveErrorRetryExceeded \<Rightarrow>
                  emitResultIfNeeded (failure ''Communication failed after retries.'' ''RETRY_EXCEEDED'') w1
              | ndefReaderSessionErrorTagNotWritable \<Rightarrow>
                  emitResultIfNeeded (failure ''Tag is not writable.'' ''TAG_NOT_WRITABLE'') w1
              | ndefReaderSessionErrorTagUpdateFailure \<Rightarrow>
                  emitResultIfNeeded (failure ''Failed to write to tag.'' ''TAG_UPDATE_FAILURE'') w1
              | ndefReaderSessionErrorTagSizeTooSmall \<Rightarrow>
                  emitResultIfNeeded
                    (failure ''Tag capacity is too small for this data.'' ''TAG_SIZE_TOO_SMALL'') w1
              | ndefReaderSessionErrorZeroLengthMessage \<Rightarrow>
                  emitResultIfNeeded (failure ''Tag contains empty message.'' ''ZERO_LENGTH_MESSAGE'') w1
              | otherReaderErrorCode \<Rightarrow>
                  emitResultIfNeeded (failure (''NFC error: '' @ description) ''UNKNOWN_NFC_ERROR'') w1)
         | OtherError description \<Rightarrow>
             emitResultIfNeeded (failure (''Error: '' @ description) ''UNKNOWN_ERROR'') w1)"

text \<open>
  \<open>emitAndClose\<close>: the result is emitted, and the block that invalidates the session is
  dispatched to the main queue (after half a second).
\<close>

definition emitAndClose :: "nat \<Rightarrow> NFCResult \<Rightarrow> runtime \<Rightarrow> runtime" where
  "emitAndClose session r w =
     (let w1 = emitResult r w in w1\<lparr> mainQueue := mainQueue w1 @ [CloseBlock session] \<rparr>)"

text \<open>
  What a tag does when \<open>processTag\<close> talks to it. Each of the four calls returns or
  throws (an error with its \<open>localizedDescription\<close>). \<open>readNDEF\<close> stands for the read
  followed by \<open>parseNdefMessage\<close>: the url, the text and the raw summary found in the
  message.
\<close>

datatype 'a outcome = Ok 'a | Threw string

datatype NFCNDEFStatus = notSupported | readOnly | readWrite | unknownStatus

record NFCNDEFTag =
  connect :: "unit outcome"
  queryNDEFStatus :: "NFCNDEFStatus outcome"
  readNDEF :: "(string option \<times> string option \<times> string option) outcome"
  writeNDEF :: "unit outcome"
  urlWithScheme :: bool
  uriPayloadCreated :: bool

datatype NFCBridgeError = recordCreation string | invalidUrl string

text \<open>
  \<open>trimmingCharacters(in: .whitespacesAndNewlines).isEmpty\<close> on an ASCII string: every
  character is a space, a tab or a line break.
\<close>

definition isBlank :: "string \<Rightarrow> bool" where
  "isBlank s = list_all (\<lambda>c. (of_char c :: nat) = 32 \<or> (9 \<le> (of_char c :: nat) \<and> (of_char c :: nat) \<le> 13)) s"

text \<open>
  \<open>createNdefMessageForWriting\<close>: the three guards in order. Whether \<open>URL(string:)\<close>
  gives a URL with a scheme and whether CoreNFC builds the URI payload are answers of
  the platform, kept with the tag (\<open>urlWithScheme\<close>, \<open>uriPayloadCreated\<close>).
\<close>

definition createNdefMessageForWriting :: "NFCNDEFTag \<Rightarrow> runtime \<Rightarrow> NFCBridgeError + unit" where
  "createNdefMessageForWriting tag w =
     (case writeUrl (manager w) of
        None \<Rightarrow> Inl (recordCreation ''No URL provided.'')
      | Some urlString \<Rightarrow>
          if isBlank urlString then Inl (recordCreation ''No URL provided.'')
          else if \<not> urlWithScheme tag then Inl (invalidUrl (''Invalid URL: '' @ urlString))
          else if \<not> uriPayloadCreated tag then Inl (recordCreation ''Failed to create URI payload.'')
          else Inr ())"

definition scanSuccess :: "string option \<times> string option \<times> string option \<Rightarrow> NFCResult" where
  "scanSuccess parsed =
     \<lparr> success = True, message = ''Scan successful.'', url = fst parsed, text' = fst (snd parsed),
       raw = snd (snd parsed), errorCode = None \<rparr>"

text \<open>
  \<open>processTag\<close>, with its suspension points collapsed: the stored properties it reads
  (\<open>sessionMode\<close>, \<open>writeUrl\<close>) are read in the state in which the tag is processed.
\<close>

definition processTag :: "NFCNDEFTag \<Rightarrow> nat \<Rightarrow> runtime \<Rightarrow> runtime" where
  "processTag tag session w =
     (case connect tag of
        Threw d \<Rightarrow> emitAndClose session (failure (''Failed: '' @ d) ''TAG_PROCESSING_ERROR'') w
      | Ok _ \<Rightarrow>
         (case queryNDEFStatus tag of
            Threw d \<Rightarrow> emitAndClose session (failure (''Failed: '' @ d) ''TAG_PROCESSING_ERROR'') w
          | Ok status \<Rightarrow>
             (case status of
                notSupported \<Rightarrow>
                  emitAndClose session (failure ''Tag is not NDEF compliant.'' ''TAG_NOT_NDEF'') w
              | readOnly \<Rightarrow>
                  if sessionMode (manager w) = Scan then
                    (case readNDEF tag of
                       Ok parsed \<Rightarrow> emitAndClose session (scanSuccess parsed) w
                     | Threw d \<Rightarrow>
                         emitAndClose session (failure (''Failed to read tag: '' @ d) ''READ_ERROR'') w)
                  else emitAndClose session (failure ''Tag is read-only; cannot write.'' ''TAG_READ_ONLY'') w
              | readWrite \<Rightarrow>
                  if sessionMode (manager w) = Scan then
                    (case readNDEF tag of
                       Ok parsed \<Rightarrow> emitAndClose session (scanSuccess parsed) w
                     | Threw d \<Rightarrow>
                         emitAndClose session
                           \<lparr> success = True, message = ''Tag scanned but appears empty.'', url = None,
                             text' = None, raw = None, errorCode = None \<rparr> w)
                  else
                    (case createNdefMessageForWriting tag w of
                       Inl (recordCreation msg) \<Rightarrow>
                         emitAndClose session (failure msg ''RECORD_CREATION_ERROR'') w
                     | Inl (invalidUrl msg) \<Rightarrow> emitAndClose session (failure msg ''INVALID_URL'') w
                     | Inr _ \<Rightarrow>
                        (case writeNDEF tag of
                           Ok _ \<Rightarrow>
                             emitAndClose session
                               \<lparr> success = True, message = ''Write successful.'', url = writeUrl (manager w),
                                 text' = None, raw = None, errorCode = None \<rparr> w
                         | Threw d \<Rightarrow>
                             emitAndClose session (failure (''Write failed: '' @ d) ''WRITE_ERROR'') w))
              | unknownStatus \<Rightarrow>
                  emitAndClose session (failure ''Unknown NDEF status.'' ''UNKNOWN_NDEF_STATUS'') w)))"

text \<open>
  \<open>readerSession(_:didDetect:)\<close>: with more than one tag, or none, polling is restarted
  and the manager is left as it is; with one tag, the tag is processed.
\<close>

definition didDetect :: "nat \<Rightarrow> NFCNDEFTag list \<Rightarrow> runtime \<Rightarrow> runtime" where
  "didDetect session tags w =
     (if length tags > 1 then w
      else (case tags of [] \<Rightarrow> w | tag # _ \<Rightarrow> processTag tag session w))"

text \<open>\<open>readerSession(_:didDetectNDEFs:)\<close> only logs.\<close>

definition didDetectNDEFs :: "runtime \<Rightarrow> runtime" where
  "didDetectNDEFs w = w"

text \<open>
  What can happen to a manager: a call from TypeScript, a delegate call from CoreNFC,
  or the main queue running one of its waiting blocks (\<open>RunBlock i\<close> runs the block at
  position \<open>i\<close>; a position beyond the queue does nothing).
\<close>

datatype event =
    ScanWithCallback nat
  | WriteWithUrlCallback string nat
  | StopSession
  | DidInvalidateWithError sessionError
  | DidDetect nat "NFCNDEFTag list"
  | DidDetectNDEFs
  | RunBlock nat

fun step :: "platform \<Rightarrow> runtime \<Rightarrow> event \<Rightarrow> runtime" where
  "step p w (ScanWithCallback callback) = scanWithCallback p callback w"
| "step p w (WriteWithUrlCallback u callback) = writeWithUrlCallback p u callback w"
| "step p w StopSession = stopSession w"
| "step p w (DidInvalidateWithError err) = didInvalidateWithError err w"
| "step p w (DidDetect session tags) = didDetect session tags w"
| "step p w DidDetectNDEFs = didDetectNDEFs w"
| "step p w (RunBlock i) =
     (if i < length (mainQueue w)
      then runBlock (mainQueue w ! i) (w\<lparr> mainQueue := take i (mainQueue w) @ drop (Suc i) (mainQueue w) \<rparr>)
      else w)"

definition run :: "platform \<Rightarrow> runtime \<Rightarrow> event list \<Rightarrow> runtime" where
  "run p w evs = foldl (step p) w evs"

text \<open>How often a callback has been called.\<close>

definition deliveries :: "nat \<Rightarrow> runtime \<Rightarrow> nat" where
  "deliveries callback w = length (filter (\<lambda>c. fst c = callback) (calls w))"

section \<open>The plugin class: \<open>Nfc\<close> (TypeScript)\<close>

text \<open>
  A promise as the caller sees it once the executor has returned: resolved with a
  value, rejected with a reason, or still pending (to be settled by a later callback).
\<close>

datatype 'a promise = Resolved 'a | Rejected string | Pending

text \<open>
  The object keeps \<open>nativeManager\<close> (\<open>null\<close> when the \<open>NFCManager\<close> class was not found
  or could not be initialised) and \<open>session\<close>, the reader session of the delegate path.
  \<open>sessionInvalidations\<close> records the \<open>invalidateSession()\<close> calls made on sessions of
  the delegate path.
\<close>

record Nfc =
  nativeManager :: "runtime option"
  session :: "nat option"
  sessionInvalidations :: "nat list"

text \<open>
  What the JavaScript side is told by its surroundings: the answer of
  \<open>NSObject.instancesRespondToSelector('accessibilityAttributedLabel')\<close>; what reading
  \<open>NFCNDEFReaderSession.readingAvailable\<close> gives (a value, or an exception, as when the
  class is not there); whether a call into the native manager goes through or raises;
  and the platform as the native manager sees it.
\<close>

record environment =
  isIOS11OrUp :: bool
  jsReadingAvailable :: "bool outcome"
  bridge :: "unit outcome"
  native :: platform

text \<open>
  \<open>initializeNativeManager\<close>: the argument says whether the class \<open>NFCManager\<close> is
  defined and, if so, whether \<open>alloc().init()\<close> returns or throws.
\<close>

definition initializeNativeManager :: "unit outcome option \<Rightarrow> runtime option" where
  "initializeNativeManager found =
     (case found of None \<Rightarrow> None | Some (Threw e) \<Rightarrow> None | Some (Ok u) \<Rightarrow> Some initialRuntime)"

definition newNfc :: "unit outcome option \<Rightarrow> Nfc" where
  "newNfc found =
     \<lparr> nativeManager = initializeNativeManager found, session = None, sessionInvalidations = [] \<rparr>"

text \<open>The static \<open>Nfc._available\<close>.\<close>

definition available_static :: "environment \<Rightarrow> bool" where
  "available_static env =
     (if isIOS11OrUp env
      then (case jsReadingAvailable env of Ok b \<Rightarrow> b | Threw e \<Rightarrow> False)
      else False)"

text \<open>\<open>available\<close>: the native manager first, the static check otherwise.\<close>

definition available :: "environment \<Rightarrow> Nfc \<Rightarrow> bool promise" where
  "available env nfc =
     (case nativeManager nfc of
        Some m \<Rightarrow>
          (case bridge env of
             Ok u \<Rightarrow> Resolved (isAvailable (native env))
           | Threw e \<Rightarrow> Resolved (available_static env))
      | None \<Rightarrow> Resolved (available_static env))"

text \<open>\<open>enabled\<close> returns the promise of \<open>available\<close>.\<close>

definition enabled :: "environment \<Rightarrow> Nfc \<Rightarrow> bool promise" where
  "enabled env nfc = available env nfc"

text \<open>\<open>setOnTagDiscoveredListener\<close> and \<open>eraseTag\<close>.\<close>

definition setOnTagDiscoveredListener :: "bool promise" where
  "setOnTagDiscoveredListener = Resolved True"

definition eraseTag :: "bool promise" where
  "eraseTag = Rejected ''Erase tag not available on iOS''"

text \<open>
  \<open>invalidateSession\<close>: the native session is stopped inside \<open>try\<close>/\<open>catch\<close> (a call that
  raises in the bridge leaves the manager as it was), then the session of the delegate
  path, if there is one, is invalidated and forgotten.
\<close>

definition invalidateSession :: "environment \<Rightarrow> Nfc \<Rightarrow> Nfc" where
  "invalidateSession env nfc =
     (let nfc1 = (case nativeManager nfc of
                    None \<Rightarrow> nfc
                  | Some m \<Rightarrow>
                      (case bridge env of
                         Ok u \<Rightarrow> nfc\<lparr> nativeManager := Some (stopSession m) \<rparr>
                       | Threw e \<Rightarrow> nfc))
      in case session nfc1 of
           None \<Rightarrow> nfc1
         | Some s \<Rightarrow> nfc1\<lparr> sessionInvalidations := sessionInvalidations nfc1 @ [s], session := None \<rparr>)"

text \<open>\<open>stopListening\<close>: the new state of the object and the promise.\<close>

definition stopListening :: "environment \<Rightarrow> Nfc \<Rightarrow> Nfc \<times> bool promise" where
  "stopListening env nfc = (invalidateSession env nfc, Resolved True)"

text \<open>
  Modelled from the spec: the types \<open>WriteTagOptions\<close>, \<open>NfcUriRecord\<close> and
  \<open>NfcTextRecord\<close>, declared in \<open>./common\<close>, a file that is not among the sources. The
  spec gives their shape as \<open>{ uriRecords: [{uri}], textRecords: [{text, languageCode?}] }\<close>;
  a list that is absent is \<open>None\<close>. (\<open>text''\<close> is the field \<open>text\<close>.)
\<close>

record NfcUriRecord =
  uri :: string

record NfcTextRecord =
  text'' :: string
  languageCode :: "string option"

record WriteTagOptions =
  uriRecords :: "NfcUriRecord list option"
  textRecords :: "NfcTextRecord list option"

text \<open>
  The first part of \<open>writeTag\<close>, "Extract URL from records": \<open>xs && xs.length > 0\<close>
  holds exactly for a list that is present and has a first element. The result is the
  early rejection of the text-only branch (\<open>Inl\<close>), or the value of \<open>urlToWrite\<close>
  (\<open>Inr\<close>, with \<open>None\<close> for \<open>null\<close>).
\<close>

definition extractUrl :: "WriteTagOptions \<Rightarrow> string + string option" where
  "extractUrl arg =
     (case uriRecords arg of
        Some (r # rs) \<Rightarrow> Inr (Some (uri r))
      | _ \<Rightarrow>
          (case textRecords arg of
             Some (t # ts) \<Rightarrow> Inl ''Writing text records not supported. Please provide a URI record.''
           | _ \<Rightarrow> Inr None))"

text \<open>
  The callback \<open>writeTag\<close> hands to the native manager: it settles the promise from the
  result it is called with.
\<close>

definition writeSettled :: "NFCResult \<Rightarrow> (bool \<times> string) promise" where
  "writeSettled r = (if success r then Resolved (True, message r) else Rejected (message r))"

text \<open>
  \<open>writeTag\<close>. \<open>callback\<close> is the number under which the manager will know the callback
  of this call. The result is the new state of the object and the promise as it stands
  when the executor returns: rejected on one of the early returns (\<open>!urlToWrite\<close> holds
  for \<open>null\<close> and for the empty string), pending once the native write session has been
  asked for.
\<close>

definition writeTag :: "environment \<Rightarrow> WriteTagOptions \<Rightarrow> nat \<Rightarrow> Nfc \<Rightarrow> Nfc \<times> (bool \<times> string) promise" where
  "writeTag env arg callback nfc =
     (case nativeManager nfc of
        None \<Rightarrow> (nfc, Rejected ''NFC write not available - native manager not initialized'')
      | Some m \<Rightarrow>
          (case extractUrl arg of
             Inl reason \<Rightarrow> (nfc, Rejected reason)
           | Inr urlToWrite \<Rightarrow>
               (case urlToWrite of
                  None \<Rightarrow> (nfc, Rejected ''No URI record provided for writing'')
                | Some u \<Rightarrow>
                    if u = []
                    then (nfc, Rejected ''No URI record provided for writing'')
                    else
                      (case bridge env of
                         Threw e \<Rightarrow> (nfc, Rejected (''Write error: '' @ e))
                       | Ok v \<Rightarrow>
                           (nfc\<lparr> nativeManager := Some (writeWithUrlCallback (native env) u callback m) \<rparr>,
                            Pending)))))"

section \<open>What the specification says about the decoder\<close>

text \<open>
  The definitions of this section follow the words of the specification, not the
  source; the theorems compare them with the decoder above.

  "The lowercase hex encoding of the raw payload", two digits per byte, the high half
  first.
\<close>

definition hexEncode :: "byte list \<Rightarrow> string" where
  "hexEncode bs =
     concat (map (\<lambda>x. [''0123456789abcdef'' ! (unat x div 16), ''0123456789abcdef'' ! (unat x mod 16)]) bs)"

text \<open>Bytes "decoded as text", one character per byte.\<close>

definition byteChar :: "byte \<Rightarrow> char" where
  "byteChar x = char_of (unat x)"

definition decodeText :: "byte list \<Rightarrow> string" where
  "decodeText bs = map byteChar bs"

text \<open>"The first payload byte's low 6 bits give the language-code length."\<close>

definition specLanguageCodeLength :: "byte \<Rightarrow> nat" where
  "specLanguageCodeLength status = unat (status AND 0x3F)"

text \<open>
  "The first payload byte selects a URI-prefix from a fixed lookup table";
  "\<open>payloadAsString\<close> = prefix concatenated with the remaining bytes decoded as text".
\<close>

definition specUriString :: "string list \<Rightarrow> byte \<Rightarrow> byte list \<Rightarrow> string" where
  "specUriString protocols code rest = protocols ! unat code @ decodeText rest"

text \<open>
  The records of the examples: the URI record with code 2 and \<open>example.com\<close>; the Text
  record with the language \<open>en\<close> and the text \<open>Hi\<close>; a Text record with the ten-letter
  language code \<open>zh-Hant-TW\<close> and the text \<open>Hi\<close>; a Text record with an empty payload.
\<close>

definition exampleUriRecord :: NFCNDEFPayload where
  "exampleUriRecord =
     \<lparr> typeNameFormat = 1, type = [0x55], identifier' = [],
       payload = [0x02, 0x65, 0x78, 0x61, 0x6d, 0x70, 0x6c, 0x65, 0x2e, 0x63, 0x6f, 0x6d] \<rparr>"

definition exampleTextRecord :: NFCNDEFPayload where
  "exampleTextRecord =
     \<lparr> typeNameFormat = 1, type = [0x54], identifier' = [], payload = [0x02, 0x65, 0x6e, 0x48, 0x69] \<rparr>"

definition longLanguageTextRecord :: NFCNDEFPayload where
  "longLanguageTextRecord =
     \<lparr> typeNameFormat = 1, type = [0x54], identifier' = [],
       payload = [0x0a, 0x7a, 0x68, 0x2d, 0x48, 0x61, 0x6e, 0x74, 0x2d, 0x54, 0x57, 0x48, 0x69] \<rparr>"

definition emptyTextRecord :: NFCNDEFPayload where
  "emptyTextRecord = \<lparr> typeNameFormat = 1, type = [0x54], identifier' = [], payload = [] \<rparr>"

text \<open>A Text record in UTF-16 (status byte \<open>0x82\<close>: the UTF-16 flag and the language \<open>en\<close>).\<close>

definition utf16TextRecord :: NFCNDEFPayload where
  "utf16TextRecord =
     \<lparr> typeNameFormat = 1, type = [0x54], identifier' = [],
       payload = [0x82, 0x65, 0x6e, 0x00, 0x48, 0x00, 0x69] \<rparr>"

definition emptyUriRecord :: NFCNDEFPayload where
  "emptyUriRecord = \<lparr> typeNameFormat = 1, type = [0x55], identifier' = [], payload = [] \<rparr>"

section \<open>Notions used to state the properties of the manager and of the plugin class\<close>

text \<open>The callback an event registers with the manager, if it registers one.\<close>

fun registers :: "event \<Rightarrow> nat option" where
  "registers (ScanWithCallback c) = Some c"
| "registers (WriteWithUrlCallback u c) = Some c"
| "registers e = None"

definition registrations :: "event list \<Rightarrow> nat list" where
  "registrations evs = List.map_filter registers evs"

text \<open>
  The invariant behind "never more than one": no callback has been called twice, every
  callback called was registered (is in \<open>U\<close>), and the callback the manager holds was
  registered and has not been called.
\<close>

definition onceInvariant :: "nat set \<Rightarrow> runtime \<Rightarrow> bool" where
  "onceInvariant U w =
     (distinct (map fst (calls w)) \<and> fst ` set (calls w) \<subseteq> U
      \<and> (case resultCallback (manager w) of None \<Rightarrow> True
         | Some c \<Rightarrow> c \<in> U \<and> c \<notin> fst ` set (calls w)))"

text \<open>
  The events that end a session with an outcome: a \<open>stopSession\<close> call, an invalidation
  with any error but "first NDEF tag read" (for which the delegate emits nothing), and
  the detection of exactly one tag.
\<close>

fun endsSession :: "event \<Rightarrow> bool" where
  "endsSession StopSession = True"
| "endsSession (DidInvalidateWithError (NFCReaderError code d)) =
     (code \<noteq> readerSessionInvalidationErrorFirstNDEFTagRead)"
| "endsSession (DidInvalidateWithError (OtherError d)) = True"
| "endsSession (DidDetect s tags) = (length tags = 1)"
| "endsSession e = False"

text \<open>A device on which NFC reading is available and reader sessions can be created.\<close>

definition workingPlatform :: platform where
  "workingPlatform = \<lparr> readingAvailable = True, sessionInit = True \<rparr>"

text \<open>
  A scan is started with callback 1 and stopped, a second scan is started with callback
  2, and only then the main queue runs the block that \<open>stopSession\<close> dispatched: three
  calls made from TypeScript in one turn of the main thread.
\<close>

definition overlappingScans :: "event list" where
  "overlappingScans = [ScanWithCallback 1, StopSession, ScanWithCallback 2, RunBlock 0]"

text \<open>
  An environment without NFC: reading \<open>NFCNDEFReaderSession.readingAvailable\<close> raises in
  JavaScript, calls into the native manager raise, and the platform reports no reading.
\<close>

definition missingFramework :: environment where
  "missingFramework =
     \<lparr> isIOS11OrUp = True, jsReadingAvailable = Threw ''ReferenceError'', bridge = Threw ''TypeError'',
       native = \<lparr> readingAvailable = False, sessionInit = False \<rparr> \<rparr>"

text \<open>An environment in which everything works.\<close>

definition workingEnvironment :: environment where
  "workingEnvironment =
     \<lparr> isIOS11OrUp = True, jsReadingAvailable = Ok True, bridge = Ok (), native = workingPlatform \<rparr>"

text \<open>A list of records that is "absent or empty".\<close>

definition noRecords :: "'a list option \<Rightarrow> bool" where
  "noRecords xs = (case xs of None \<Rightarrow> True | Some l \<Rightarrow> l = [])"

text \<open>Arguments of \<open>writeTag\<close>: no record at all, and one text record only.\<close>

definition emptyOptions :: WriteTagOptions where
  "emptyOptions = \<lparr> uriRecords = None, textRecords = Some [] \<rparr>"

definition textOnlyOptions :: WriteTagOptions where
  "textOnlyOptions =
     \<lparr> uriRecords = Some [], textRecords = Some [\<lparr> text'' = ''Hi'', languageCode = Some ''en'' \<rparr>] \<rparr>"

section \<open>Properties of the decoder\<close>

subsection \<open>Hexadecimal digits\<close>

lemma lt16_cases:
  "d < 16 \<Longrightarrow> d = 0 \<or> d = 1 \<or> d = 2 \<or> d = 3 \<or> d = 4 \<or> d = 5 \<or> d = 6 \<or> d = 7 \<or> d = 8
     \<or> d = 9 \<or> d = 10 \<or> d = 11 \<or> d = 12 \<or> d = 13 \<or> d = 14 \<or> d = (15::nat)"
  by arith

lemma unat_byte_less: "unat (b :: byte) < 256"
  using unsigned_less [of b, where ?'a = nat] by simp

lemma hexDigit_0: "hexDigit 0 = CHR ''0''"
  by (simp add: hexDigit_def)

lemma hexValue_hexDigit:
  assumes "d < 16"
  shows "hexValue (hexDigit d) = Some d"
  using lt16_cases [OF assms] by (elim disjE) (simp_all add: hexValue_def hexDigit_def)

lemma lowerChar_hexDigit:
  assumes "d < 16"
  shows "lowerChar (hexDigit d) = hexDigit d"
  using lt16_cases [OF assms] by (elim disjE) (simp_all add: lowerChar_def hexDigit_def)

lemma indexOf_hexDigit:
  assumes "d < 16"
  shows "indexOf ''0123456789abcdefgh'' (hexDigit d) = int d"
  using lt16_cases [OF assms] by (elim disjE) (simp_all add: hexDigit_def)

lemma decValue_hexDigit:
  assumes "d < 16"
  shows "decValue (hexDigit d) = (if d < 10 then Some d else None)"
  using lt16_cases [OF assms] by (elim disjE) (simp_all add: decValue_def hexDigit_def)

text \<open>A byte is written as two digits: the padding and the slice give the high half first.\<close>

lemma toString16_byte:
  "n < 256 \<Longrightarrow> ''00'' @ toString16 n =
     (if n < 16 then [CHR ''0'', CHR ''0'', hexDigit n]
      else [CHR ''0'', CHR ''0'', hexDigit (n div 16), hexDigit (n mod 16)])"
  by (subst toString16.simps, subst toString16.simps) auto

lemma hexOfByte_digits: "hexOfByte x = [hexDigit (unat x div 16), hexDigit (unat x mod 16)]"
  using unat_byte_less [of x]
  by (simp add: hexOfByte_def sliceLast2_def toString16_byte hexDigit_0 del: append.simps)

lemma length_hexOfByte: "length (hexOfByte x) = 2"
  by (simp add: hexOfByte_digits)

lemma hexOfByte_small: "unat b < 16 \<Longrightarrow> hexOfByte b = [CHR ''0'', hexDigit (unat b)]"
  by (simp add: hexOfByte_digits hexDigit_0)

text \<open>\<open>parseInt\<close> reads the two digits back, so \<open>fromCharCode\<close> gets a value below 256.\<close>

lemma parseInt16_hexOfByte: "parseInt16 (hexOfByte x) = Some (unat x)"
proof -
  have "unat x div 16 < 16" using unat_byte_less [of x] by simp
  then show ?thesis
    by (simp add: hexOfByte_digits parseInt16_def hexValue_hexDigit)
qed

lemma fromCharCode_hexOfByte: "fromCharCode (parseInt16 (hexOfByte x)) = byteChar x"
  by (simp add: parseInt16_hexOfByte fromCharCode_def byteChar_def)

subsection \<open>The loop of \<open>hex2a\<close>\<close>

text \<open>
  The loop has consumed \<open>pre\<close> and produced \<open>acc\<close>; it turns the digits of the
  remaining bytes into one character per byte.
\<close>

lemma hex2a_loop_buf2hexString:
  "hex2a_loop (pre @ buf2hexString bs) (length pre) acc = acc @ map byteChar bs"
proof (induction bs arbitrary: pre acc)
  case Nil
  show ?case
    by (subst hex2a_loop.simps) (simp add: buf2hexString_def)
next
  case (Cons b bs)
  have split: "pre @ buf2hexString (b # bs) = (pre @ hexOfByte b) @ buf2hexString bs"
    by (simp add: buf2hexString_def)
  have len: "length (pre @ hexOfByte b) = length pre + 2"
    by (simp add: length_hexOfByte)
  have sub: "substr2 (pre @ buf2hexString (b # bs)) (length pre) = hexOfByte b"
    by (simp add: substr2_def buf2hexString_def length_hexOfByte)
  have lt: "length pre < length (pre @ buf2hexString (b # bs))"
    by (simp add: buf2hexString_def length_hexOfByte)
  have "hex2a_loop (pre @ buf2hexString (b # bs)) (length pre) acc
        = hex2a_loop (pre @ buf2hexString (b # bs)) (length pre + 2) (acc @ [byteChar b])"
    by (subst hex2a_loop.simps) (simp only: lt sub fromCharCode_hexOfByte if_True)
  also have "\<dots> = hex2a_loop ((pre @ hexOfByte b) @ buf2hexString bs) (length (pre @ hexOfByte b))
                     (acc @ [byteChar b])"
    by (simp only: split len)
  also have "\<dots> = (acc @ [byteChar b]) @ map byteChar bs"
    by (rule Cons.IH)
  finally show ?case by simp
qed

lemma nsdataToASCIIString_bytes: "nsdataToASCIIString d = map byteChar d"
  using hex2a_loop_buf2hexString [of "[]" d "[]"]
  by (simp add: nsdataToASCIIString_def nsdataToHexString_def hex2a_def)

subsection \<open>The fields of the decoded record\<close>

lemma first_nsdataToHexArray_Cons: "first (nsdataToHexArray (b # bs)) = Some (hexOfByte b)"
  by (simp add: first_def nsdataToHexArray_def buf2hexArray_def)

lemma first_nsdataToHexArray_Nil: "first (nsdataToHexArray []) = None"
  by (simp add: first_def nsdataToHexArray_def buf2hexArray_def)

lemma hexDigitsToDec_two:
  assumes "h < 16" and "l < 16"
  shows "hexDigitsToDec [hexDigit h, hexDigit l] = int (h * 16 + l)"
  by (simp add: hexDigitsToDec_def toLowerCase_def lowerChar_hexDigit [OF assms(1)]
      lowerChar_hexDigit [OF assms(2)] indexOf_hexDigit [OF assms(1)] indexOf_hexDigit [OF assms(2)]
      del: indexOf.simps)

lemma hexDigitsToDec_hexOfByte: "hexDigitsToDec (hexOfByte b) = int (unat b)"
proof -
  have hi: "unat b div 16 < 16" using unat_byte_less [of b] by simp
  have lo: "unat b mod 16 < 16" by simp
  have "unat b div 16 * 16 + unat b mod 16 = unat b" by simp
  then show ?thesis
    by (simp only: hexOfByte_digits hexDigitsToDec_two [OF hi lo])
qed

text \<open>The type of the decoded record is the value of the first type byte.\<close>

lemma recordToJSON_type:
  "type' (recordToJSON protocols record) =
     (case type record of [] \<Rightarrow> None | t # ts \<Rightarrow> Some (int (unat t)))"
  by (simp add: recordToJSON_def Let_def first_nsdataToHexArray_Cons first_nsdataToHexArray_Nil
      hexToDec_def hexDigitsToDec_hexOfByte split: list.splits)

lemma recordToJSON_withPrefix:
  "payloadAsStringWithPrefix (recordToJSON protocols record) = decodeText (payload record)"
  by (simp add: recordToJSON_def Let_def nsdataToASCIIString_bytes decodeText_def)

lemma buf2hexString_hexEncode: "buf2hexString bs = hexEncode bs"
proof -
  have "hexOfByte = (\<lambda>x. [''0123456789abcdef'' ! (unat x div 16), ''0123456789abcdef'' ! (unat x mod 16)])"
    by (rule ext) (simp add: hexOfByte_digits hexDigit_def)
  then show ?thesis
    by (simp add: buf2hexString_def hexEncode_def)
qed

text \<open>
  Claim C4. For every NDEF record, whatever its type, the field \<open>payloadAsHexString\<close>
  of the decoded record is the lowercase hexadecimal encoding of the raw payload, two
  digits per byte.
\<close>

theorem payloadAsHexString_is_lowercase_hex:
  "payloadAsHexString (recordToJSON protocols record) = hexEncode (payload record)"
  by (simp add: recordToJSON_def Let_def nsdataToHexString_def buf2hexString_hexEncode)

subsection \<open>URI records\<close>

text \<open>
  The key of the table lookup is the two-character text of the first payload byte. For
  a byte below \<open>0x10\<close> that text starts with \<open>0\<close>, so it is no array index.
\<close>

lemma arrayIndex_small:
  assumes "unat b < 16"
  shows "arrayIndex (hexOfByte b) = None"
proof (cases "unat b < 10")
  case True
  then have "decimalString (unat b) = [decDigit (unat b)]"
    by (subst decimalString.simps) simp
  then show ?thesis
    using decValue_hexDigit [OF assms] decValue_hexDigit [of 0] True
    by (simp add: arrayIndex_def hexOfByte_small [OF assms] flip: hexDigit_0)
next
  case False
  then show ?thesis
    using decValue_hexDigit [OF assms] decValue_hexDigit [of 0]
    by (simp add: arrayIndex_def hexOfByte_small [OF assms] flip: hexDigit_0)
qed

text \<open>
  Whatever the table holds, a URI record whose prefix code is below \<open>0x10\<close> is decoded
  with no prefix at all.
\<close>

lemma uri_short_code_loses_prefix:
  assumes "type record = 0x55 # ts" and "payload record = code # rest" and "unat code < 16"
  shows "payloadAsString (recordToJSON protocols record) = decodeText rest"
  using assms
  by (simp add: recordToJSON_def Let_def first_nsdataToHexArray_Cons hexToDec_def
      hexDigitsToDec_hexOfByte getProperty_def arrayIndex_small orEmpty_def slice1_def
      nsdataToASCIIString_bytes decodeText_def)

text \<open>
  Claim C2. For a URI record the decoder is to take the prefix from the table at the
  index given by the first payload byte and to put it before the rest of the payload;
  the bytes \<open>02\<close> \<open>example.com\<close> are to give entry 2 followed by \<open>example.com\<close>. On
  that record the decoder gives \<open>example.com\<close> with no prefix, while entry 2 of the
  table followed by the rest is \<open>https://www.example.com\<close>.
\<close>

theorem uri_example_decodes_without_prefix:
  "payloadAsString (recordToJSON NfcUriProtocols exampleUriRecord) = ''example.com''
   \<and> specUriString NfcUriProtocols 0x02 (tl (payload exampleUriRecord)) = ''https://www.example.com''"
  by code_simp

subsection \<open>Text records\<close>

lemma specLanguageCodeLength_mod: "specLanguageCodeLength b = unat b mod 64"
proof -
  have m: "(0x3F :: byte) = mask 6" by (simp add: mask_eq_exp_minus_1)
  have "unat (b AND 0x3F) = unat (take_bit 6 b)"
    unfolding m by (simp only: take_bit_eq_mask)
  also have "\<dots> = take_bit 6 (unat b)"
    by (rule unsigned_take_bit_eq)
  also have "\<dots> = unat b mod 64"
    by (simp add: take_bit_eq_mod)
  finally show ?thesis by (simp only: specLanguageCodeLength_def)
qed

lemma toNumber_small:
  assumes "unat b \<le> 9"
  shows "toNumber (Some (hexOfByte b)) = Some (unat b)"
proof -
  from assms have lt: "unat b < 16" by simp
  show ?thesis
    using assms decValue_hexDigit [OF lt] decValue_hexDigit [of 0]
    by (simp add: toNumber_def hexOfByte_small [OF lt] flip: hexDigit_0)
qed

text \<open>
  Where the status byte is at most 9, its two-digit text read as a decimal number is the
  language-code length, and the decoder strips the status byte and the language code.
\<close>

lemma text_short_language_code:
  assumes "type record = 0x54 # ts" and "payload record = status # rest" and "unat status \<le> 9"
  shows "payloadAsString (recordToJSON protocols record)
         = drop (specLanguageCodeLength status + 1) (payloadAsStringWithPrefix (recordToJSON protocols record))"
  using assms
  by (simp add: recordToJSON_def Let_def first_nsdataToHexArray_Cons hexToDec_def
      hexDigitsToDec_hexOfByte toNumber_small plusOne_def substring_def specLanguageCodeLength_mod
      nsdataToASCIIString_bytes)

text \<open>The example of the specification: language \<open>en\<close>, text \<open>Hi\<close>.\<close>

lemma text_example_decodes:
  "payloadAsString (recordToJSON NfcUriProtocols exampleTextRecord) = ''Hi''"
  by code_simp

text \<open>
  Claim C3. For a Text record with a non-empty payload the language-code length is to
  be the low 6 bits of the first payload byte, and \<open>payloadAsString\<close> is to be
  \<open>payloadAsStringWithPrefix\<close> without its first (length + 1) characters. For the
  record with the language code \<open>zh-Hant-TW\<close> (status byte \<open>0x0a\<close>, length 10) and the
  text \<open>Hi\<close> the decoder strips nothing: \<open>payloadAsString\<close> is the whole of
  \<open>payloadAsStringWithPrefix\<close>, while dropping 11 characters would leave \<open>Hi\<close>.
\<close>

theorem text_language_code_misread:
  "payloadAsString (recordToJSON NfcUriProtocols longLanguageTextRecord)
     = payloadAsStringWithPrefix (recordToJSON NfcUriProtocols longLanguageTextRecord)
   \<and> specLanguageCodeLength 0x0a = 10
   \<and> drop (specLanguageCodeLength 0x0a + 1)
        (payloadAsStringWithPrefix (recordToJSON NfcUriProtocols longLanguageTextRecord)) = ''Hi''"
  by code_simp

text \<open>
  The same misreading on a UTF-16 Text record: the status byte \<open>0x82\<close> is read as 82,
  and everything is stripped, where the low 6 bits say 2.
\<close>

lemma utf16_text_record_is_emptied:
  "payloadAsString (recordToJSON NfcUriProtocols utf16TextRecord) = []
   \<and> specLanguageCodeLength 0x82 = 2
   \<and> length (drop (specLanguageCodeLength 0x82 + 1)
        (payloadAsStringWithPrefix (recordToJSON NfcUriProtocols utf16TextRecord))) = 4"
  by code_simp

subsection \<open>Empty payloads\<close>

text \<open>
  Claim C8, as amended. The decoder is a function of the record (and of the table):
  the same bytes give the same record. On an empty payload, also of a Text or URI
  record, it neither fails nor reports a decode error: it returns an ordinary record
  whose \<open>payload\<close> is the empty array and whose three strings are empty.
\<close>

theorem empty_payload_decodes_to_empty_strings:
  assumes "payload record = []"
  shows "recordToJSON protocols record =
           \<lparr> tnf = typeNameFormat record,
             type' = hexToDec (first (nsdataToHexArray (type record))),
             id' = hexToDecArray (nsdataToHexArray (identifier' record)),
             payload' = ''[]'', payloadAsHexString = [], payloadAsStringWithPrefix = [],
             payloadAsString = [] \<rparr>"
  using assms
  by (simp add: recordToJSON_def Let_def first_nsdataToHexArray_Nil nsdataToASCIIString_bytes
      nsdataToHexString_def buf2hexString_def toNumber_def plusOne_def substring_def
      getProperty_def orEmpty_def slice1_def hexToDecArray_def stringifyInts_def
      nsdataToHexArray_def buf2hexArray_def first_def)

text \<open>The theorem at the URI record with an empty payload.\<close>

theorem empty_payload_decodes_to_empty_strings_witness:
  "payload emptyUriRecord = []
   \<and> type' (recordToJSON NfcUriProtocols emptyUriRecord) = Some 85
   \<and> payloadAsString (recordToJSON NfcUriProtocols emptyUriRecord) = []"
  using empty_payload_decodes_to_empty_strings [of emptyUriRecord NfcUriProtocols]
    recordToJSON_type [of NfcUriProtocols emptyUriRecord]
  by (simp add: emptyUriRecord_def)

text \<open>
  Claim C8 as stated asks for a decode error on an empty payload where a length-prefix
  byte is expected. The Text record with an empty payload is decoded to an ordinary
  record.
\<close>

theorem empty_text_record_decodes_without_error:
  "recordToJSON NfcUriProtocols emptyTextRecord =
     \<lparr> tnf = 1, type' = Some 84, id' = ''[]'', payload' = ''[]'', payloadAsHexString = [],
       payloadAsStringWithPrefix = [], payloadAsString = [] \<rparr>"
  by code_simp

section \<open>Properties of the native manager\<close>

subsection \<open>What each operation does to the callback and to the calls made\<close>

lemma emitResult_calls [simp]: "calls (emitResult r w) = calls w"
  by (simp add: emitResult_def)

lemma emitResult_callback [simp]: "resultCallback (manager (emitResult r w)) = resultCallback (manager w)"
  by (simp add: emitResult_def)

lemma emitResultIfNeeded_calls [simp]: "calls (emitResultIfNeeded r w) = calls w"
  by (simp add: emitResultIfNeeded_def)

lemma emitResultIfNeeded_callback [simp]:
  "resultCallback (manager (emitResultIfNeeded r w)) = resultCallback (manager w)"
  by (simp add: emitResultIfNeeded_def)

lemma emitAndClose_calls [simp]: "calls (emitAndClose s r w) = calls w"
  by (simp add: emitAndClose_def Let_def)

lemma emitAndClose_callback [simp]:
  "resultCallback (manager (emitAndClose s r w)) = resultCallback (manager w)"
  by (simp add: emitAndClose_def Let_def)

lemma cleanupSession_calls [simp]: "calls (cleanupSession w) = calls w"
  by (simp add: cleanupSession_def invalidate_def Let_def split: option.splits)

lemma cleanupSession_callback [simp]:
  "resultCallback (manager (cleanupSession w)) = resultCallback (manager w)"
  by (simp add: cleanupSession_def invalidate_def Let_def split: option.splits)

lemma cleanupSession_queue [simp]: "mainQueue (cleanupSession w) = mainQueue w"
  by (simp add: cleanupSession_def invalidate_def Let_def split: option.splits)

lemma stopSession_calls [simp]: "calls (stopSession w) = calls w"
  by (simp add: stopSession_def)

lemma stopSession_callback [simp]:
  "resultCallback (manager (stopSession w)) = resultCallback (manager w)"
  by (simp add: stopSession_def)

lemma startSession_calls [simp]: "calls (startSession p mode w) = calls w"
  by (simp add: startSession_def invalidate_def Let_def split: option.splits)

lemma startSession_callback [simp]:
  "resultCallback (manager (startSession p mode w)) = resultCallback (manager w)"
  by (simp add: startSession_def invalidate_def Let_def split: option.splits)

lemma scanWithCallback_calls [simp]: "calls (scanWithCallback p c w) = calls w"
  by (simp add: scanWithCallback_def resetState_def Let_def)

lemma scanWithCallback_callback [simp]:
  "resultCallback (manager (scanWithCallback p c w)) = Some c"
  by (simp add: scanWithCallback_def resetState_def Let_def)

lemma writeWithUrlCallback_calls [simp]: "calls (writeWithUrlCallback p u c w) = calls w"
  by (simp add: writeWithUrlCallback_def resetState_def Let_def)

lemma writeWithUrlCallback_callback [simp]:
  "resultCallback (manager (writeWithUrlCallback p u c w)) = Some c"
  by (simp add: writeWithUrlCallback_def resetState_def Let_def)

lemma didInvalidateWithError_calls [simp]: "calls (didInvalidateWithError err w) = calls w"
  by (simp add: didInvalidateWithError_def Let_def split: sessionError.splits NFCReaderErrorCode.splits)

lemma didInvalidateWithError_callback [simp]:
  "resultCallback (manager (didInvalidateWithError err w)) = resultCallback (manager w)"
  by (simp add: didInvalidateWithError_def Let_def split: sessionError.splits NFCReaderErrorCode.splits)

lemma processTag_calls [simp]: "calls (processTag tag s w) = calls w"
  by (simp add: processTag_def
      split: outcome.splits NFCNDEFStatus.splits sum.splits NFCBridgeError.splits)

lemma processTag_callback [simp]:
  "resultCallback (manager (processTag tag s w)) = resultCallback (manager w)"
  by (simp add: processTag_def
      split: outcome.splits NFCNDEFStatus.splits sum.splits NFCBridgeError.splits)

lemma didDetect_calls [simp]: "calls (didDetect s tags w) = calls w"
  by (simp add: didDetect_def split: list.splits)

lemma didDetect_callback [simp]:
  "resultCallback (manager (didDetect s tags w)) = resultCallback (manager w)"
  by (simp add: didDetect_def split: list.splits)

text \<open>Only a block of \<open>emitResult\<close> calls a callback, and it clears the one it found.\<close>

lemma runBlock_callback:
  "resultCallback (manager (runBlock b w)) =
     (case b of EmitBlock r \<Rightarrow> None | CloseBlock s \<Rightarrow> resultCallback (manager w))"
  by (cases b) (simp_all add: Let_def invalidate_def split: option.splits)

lemma runBlock_calls:
  "calls (runBlock b w) =
     (case b of
        EmitBlock r \<Rightarrow> (case resultCallback (manager w) of None \<Rightarrow> calls w | Some c \<Rightarrow> calls w @ [(c, r)])
      | CloseBlock s \<Rightarrow> calls w)"
  by (cases b) (simp_all add: Let_def invalidate_def split: option.splits)

lemma run_snoc: "run p w (evs @ [e]) = step p (run p w evs) e"
  by (simp add: run_def)

lemma run_Nil: "run p w [] = w"
  by (simp add: run_def)

lemma step_callback:
  "resultCallback (manager (step p w e)) =
     (case registers e of
        Some c \<Rightarrow> Some c
      | None \<Rightarrow> (case e of
                   RunBlock i \<Rightarrow> (if i < length (mainQueue w)
                                  then (case mainQueue w ! i of EmitBlock r \<Rightarrow> None
                                        | CloseBlock s \<Rightarrow> resultCallback (manager w))
                                  else resultCallback (manager w))
                 | _ \<Rightarrow> resultCallback (manager w)))"
  by (cases e) (simp_all add: runBlock_callback didDetectNDEFs_def split: block.splits)

lemma step_calls:
  "calls (step p w e) =
     (case e of
        RunBlock i \<Rightarrow>
          (if i < length (mainQueue w)
           then (case mainQueue w ! i of
                   EmitBlock r \<Rightarrow> (case resultCallback (manager w) of None \<Rightarrow> calls w
                                    | Some c \<Rightarrow> calls w @ [(c, r)])
                 | CloseBlock s \<Rightarrow> calls w)
           else calls w)
      | _ \<Rightarrow> calls w)"
  by (cases e) (simp_all add: runBlock_calls didDetectNDEFs_def split: block.splits option.splits)

lemma registrations_snoc:
  "registrations (evs @ [e]) = registrations evs @ (case registers e of None \<Rightarrow> [] | Some c \<Rightarrow> [c])"
  by (simp add: registrations_def map_filter_def split: option.splits)

subsection \<open>Never more than one result\<close>

lemma filter_fst_le_one:
  "distinct (map fst xs) \<Longrightarrow> length (filter (\<lambda>x. fst x = c) xs) \<le> 1"
proof (induction xs)
  case Nil
  then show ?case by simp
next
  case (Cons x xs)
  show ?case
  proof (cases "fst x = c")
    case True
    with Cons.prems have "c \<notin> fst ` set xs" by auto
    then have "filter (\<lambda>x. fst x = c) xs = []"
      by (auto simp: filter_empty_conv)
    with True show ?thesis by simp
  next
    case False
    with Cons show ?thesis by simp
  qed
qed

lemma step_onceInvariant:
  assumes "onceInvariant U w"
    and "case registers e of None \<Rightarrow> True | Some c \<Rightarrow> c \<notin> U"
  shows "onceInvariant (U \<union> set_option (registers e)) (step p w e)"
  using assms
  by (cases e)
     (auto simp: onceInvariant_def runBlock_callback runBlock_calls didDetectNDEFs_def
           split: option.splits block.splits)

lemma run_onceInvariant:
  "distinct (registrations evs) \<Longrightarrow> onceInvariant (set (registrations evs)) (run p initialRuntime evs)"
proof (induction evs rule: rev_induct)
  case Nil
  show ?case
    by (simp add: run_Nil onceInvariant_def initialRuntime_def initialManager_def registrations_def
        map_filter_def)
next
  case (snoc e evs)
  from snoc.prems have d: "distinct (registrations evs)"
    and fresh: "case registers e of None \<Rightarrow> True | Some c \<Rightarrow> c \<notin> set (registrations evs)"
    by (auto simp: registrations_snoc split: option.splits)
  have "set (registrations (evs @ [e])) = set (registrations evs) \<union> set_option (registers e)"
    by (auto simp: registrations_snoc split: option.splits)
  with step_onceInvariant [OF snoc.IH [OF d] fresh, of p]
  show ?case by (simp add: run_snoc)
qed

text \<open>
  Whatever the manager goes through from its initial state, in whatever order the
  blocks run: as long as every scan and write registers a callback of its own, no
  callback is called more than once.
\<close>

lemma at_most_once:
  assumes "distinct (registrations evs)"
  shows "deliveries c (run p initialRuntime evs) \<le> 1"
proof -
  have "distinct (map fst (calls (run p initialRuntime evs)))"
    using run_onceInvariant [OF assms, of p] by (simp add: onceInvariant_def)
  then show ?thesis
    unfolding deliveries_def by (rule filter_fst_le_one)
qed

subsection \<open>A session on its own yields its result\<close>

lemma started:
  assumes "readingAvailable p" "sessionInit p"
  shows "hasEmittedResult (manager (scanWithCallback p c w)) = False"
    "mainQueue (scanWithCallback p c w) = mainQueue w"
  using assms
  by (simp_all add: scanWithCallback_def startSession_def resetState_def invalidate_def Let_def
      split: option.splits)

lemma emitResult_queue:
  "\<not> hasEmittedResult (manager w) \<Longrightarrow> mainQueue (emitResult r w) = mainQueue w @ [EmitBlock r]"
  by (simp add: emitResult_def)

lemma emitResultIfNeeded_queue:
  "\<not> hasEmittedResult (manager w) \<Longrightarrow> mainQueue (emitResultIfNeeded r w) = mainQueue w @ [EmitBlock r]"
  by (simp add: emitResultIfNeeded_def emitResult_def)

lemma emitAndClose_queue:
  "\<not> hasEmittedResult (manager w) \<Longrightarrow>
     mainQueue (emitAndClose s r w) = mainQueue w @ [EmitBlock r, CloseBlock s]"
  by (simp add: emitAndClose_def emitResult_def Let_def)

lemma stopSession_emits:
  assumes "\<not> hasEmittedResult (manager w)" "resultCallback (manager w) = Some c"
  shows "mainQueue (stopSession w)
         = mainQueue w @ [EmitBlock (failure ''Session stopped by user.'' ''USER_STOPPED'')]"
  using assms by (simp add: stopSession_def emitResult_queue)

lemma didInvalidateWithError_emits:
  assumes "\<not> hasEmittedResult (manager w)" "endsSession (DidInvalidateWithError err)"
  shows "\<exists>r. mainQueue (didInvalidateWithError err w) = mainQueue w @ [EmitBlock r]"
  using assms
  by (cases err; cases "case err of NFCReaderError code d \<Rightarrow> code | OtherError d \<Rightarrow> otherReaderErrorCode")
     (simp_all add: didInvalidateWithError_def Let_def emitResultIfNeeded_queue)

lemma processTag_emits:
  assumes "\<not> hasEmittedResult (manager w)"
  shows "\<exists>r. mainQueue (processTag tag s w) = mainQueue w @ [EmitBlock r, CloseBlock s]"
  using assms
  by (simp add: processTag_def emitAndClose_queue
      split: outcome.splits NFCNDEFStatus.splits sum.splits NFCBridgeError.splits)

lemma ending_event_emits:
  assumes "endsSession e" "\<not> hasEmittedResult (manager w)" "resultCallback (manager w) = Some c"
  shows "\<exists>r rest. mainQueue (step p w e) = mainQueue w @ EmitBlock r # rest"
proof (cases e)
  case StopSession
  then show ?thesis using stopSession_emits [OF assms(2,3)] by simp
next
  case (DidInvalidateWithError err)
  then show ?thesis using didInvalidateWithError_emits [OF assms(2), of err] assms(1) by auto
next
  case (DidDetect s tags)
  with assms(1) obtain tag where "tags = [tag]" by (cases tags) auto
  with DidDetect show ?thesis using processTag_emits [OF assms(2), of tag s] by (auto simp: didDetect_def)
qed (use assms(1) in simp_all)

text \<open>
  A scan started while no block is waiting, ended by a stop, by an invalidation (user
  cancellation, timeout, busy system, lost connection, unexpected termination and the
  others) or by a tag, has its callback called once the block runs.
\<close>

lemma lone_session_delivers:
  assumes "mainQueue w = []" "readingAvailable p" "sessionInit p" "endsSession e"
  shows "\<exists>r. calls (run p w [ScanWithCallback c, e, RunBlock 0]) = calls w @ [(c, r)]"
proof -
  let ?w1 = "scanWithCallback p c w"
  have q1: "mainQueue ?w1 = []" and h1: "\<not> hasEmittedResult (manager ?w1)"
    using started [OF assms(2,3), of c w] assms(1) by simp_all
  have c1: "resultCallback (manager ?w1) = Some c" by simp
  define w2 where "w2 = step p ?w1 e"
  from ending_event_emits [OF assms(4) h1 c1, of p] q1
  obtain r rest where q2: "mainQueue w2 = EmitBlock r # rest" by (auto simp: w2_def)
  have c2: "resultCallback (manager w2) = Some c"
    unfolding w2_def using assms(4) by (cases e) (simp_all add: step_callback)
  have k2: "calls w2 = calls w"
    unfolding w2_def using assms(4) by (cases e) (simp_all add: step_calls)
  have "calls (step p w2 (RunBlock 0)) = calls w @ [(c, r)]"
    by (simp add: step_calls q2 c2 k2 del: step.simps)
  then show ?thesis by (auto simp: run_def w2_def)
qed

text \<open>The same for a write session.\<close>

lemma started_write:
  assumes "readingAvailable p" "sessionInit p"
  shows "hasEmittedResult (manager (writeWithUrlCallback p u c w)) = False"
    "mainQueue (writeWithUrlCallback p u c w) = mainQueue w"
  using assms
  by (simp_all add: writeWithUrlCallback_def startSession_def resetState_def invalidate_def Let_def
      split: option.splits)

lemma lone_write_session_delivers:
  assumes "mainQueue w = []" "readingAvailable p" "sessionInit p" "endsSession e"
  shows "\<exists>r. calls (run p w [WriteWithUrlCallback u c, e, RunBlock 0]) = calls w @ [(c, r)]"
proof -
  let ?w1 = "writeWithUrlCallback p u c w"
  have q1: "mainQueue ?w1 = []" and h1: "\<not> hasEmittedResult (manager ?w1)"
    using started_write [OF assms(2,3), of u c w] assms(1) by simp_all
  have c1: "resultCallback (manager ?w1) = Some c" by simp
  define w2 where "w2 = step p ?w1 e"
  from ending_event_emits [OF assms(4) h1 c1, of p] q1
  obtain r rest where q2: "mainQueue w2 = EmitBlock r # rest" by (auto simp: w2_def)
  have c2: "resultCallback (manager w2) = Some c"
    unfolding w2_def using assms(4) by (cases e) (simp_all add: step_callback)
  have k2: "calls w2 = calls w"
    unfolding w2_def using assms(4) by (cases e) (simp_all add: step_calls)
  have "calls (step p w2 (RunBlock 0)) = calls w @ [(c, r)]"
    by (simp add: step_calls q2 c2 k2 del: step.simps)
  then show ?thesis by (auto simp: run_def w2_def)
qed

text \<open>
  Where NFC reading is not available, the session is not started and the callback is
  called with the "not available" result.
\<close>

lemma unavailable_scan_delivers:
  assumes "mainQueue w = []" "\<not> readingAvailable p"
  shows "calls (run p w [ScanWithCallback c, RunBlock 0])
         = calls w @ [(c, failure ''NFC not supported on this device.'' ''NFC_NOT_AVAILABLE'')]"
  using assms
  by (simp add: run_def scanWithCallback_def startSession_def resetState_def emitResult_def
      invalidate_def Let_def split: option.splits)

subsection \<open>A session whose callback is replaced yields nothing\<close>

lemma step_lost:
  assumes "resultCallback (manager w) \<noteq> Some c" and "registers e \<noteq> Some c"
  shows "resultCallback (manager (step p w e)) \<noteq> Some c \<and> deliveries c (step p w e) = deliveries c w"
  using assms
  by (auto simp: step_callback step_calls deliveries_def split: option.splits event.splits block.splits)

text \<open>
  Once the manager holds another callback, a callback that is not registered again is
  never called again, whatever happens.
\<close>

lemma run_lost:
  assumes "resultCallback (manager w) \<noteq> Some c" and "c \<notin> set (registrations evs)"
  shows "resultCallback (manager (run p w evs)) \<noteq> Some c \<and> deliveries c (run p w evs) = deliveries c w"
  using assms(2)
proof (induction evs rule: rev_induct)
  case Nil
  then show ?case using assms(1) by (simp add: run_Nil)
next
  case (snoc e evs)
  from snoc.prems have a: "c \<notin> set (registrations evs)" and b: "registers e \<noteq> Some c"
    by (auto simp: registrations_def map_filter_def)
  from snoc.IH [OF a] step_lost [OF _ b, of "run p w evs" p]
  show ?case by (simp add: run_snoc)
qed

text \<open>
  Claim C1. Every scan or write session started through the native manager is to
  deliver exactly one result to the callback it was started with, also when it ends by
  an explicit \<open>stopSession\<close>. In \<open>overlappingScans\<close> the first session is stopped and a
  second one is started before the main queue runs the block \<open>stopSession\<close> dispatched.
  The block then calls the callback it finds, which is the second one: callback 2
  receives the "stopped" result of the first session, callback 1 is never called, and
  nothing is left waiting that could call it.
\<close>

theorem overlapping_scan_loses_result:
  "calls (run workingPlatform initialRuntime overlappingScans)
     = [(2, failure ''Session stopped by user.'' ''USER_STOPPED'')]
   \<and> deliveries 1 (run workingPlatform initialRuntime overlappingScans) = 0
   \<and> mainQueue (run workingPlatform initialRuntime overlappingScans) = []
   \<and> resultCallback (manager (run workingPlatform initialRuntime overlappingScans)) = None"
  by (simp add: run_def overlappingScans_def workingPlatform_def initialRuntime_def initialManager_def
      scanWithCallback_def stopSession_def startSession_def resetState_def emitResult_def
      cleanupSession_def invalidate_def deliveries_def Let_def)

text \<open>No later event brings the lost result back, unless callback 1 is registered anew.\<close>

lemma overlapping_scan_result_stays_lost:
  assumes "1 \<notin> set (registrations evs)"
  shows "deliveries 1 (run workingPlatform initialRuntime (overlappingScans @ evs)) = 0"
proof -
  let ?w = "run workingPlatform initialRuntime overlappingScans"
  have w: "resultCallback (manager ?w) = None" "deliveries 1 ?w = 0"
    by (simp_all add: run_def overlappingScans_def workingPlatform_def initialRuntime_def
        initialManager_def scanWithCallback_def stopSession_def startSession_def resetState_def
        emitResult_def cleanupSession_def invalidate_def deliveries_def Let_def)
  have "run workingPlatform initialRuntime (overlappingScans @ evs) = run workingPlatform ?w evs"
    by (simp add: run_def)
  with run_lost [of ?w 1 evs workingPlatform] w assms show ?thesis by simp
qed

text \<open>
  The second session loses its own outcome too: when it times out, the block finds no
  callback, and callback 2 is left with the result of the first session.
\<close>

lemma overlapping_scan_second_outcome_dropped:
  "calls (run workingPlatform initialRuntime
            (overlappingScans @
             [DidInvalidateWithError (NFCReaderError readerSessionInvalidationErrorSessionTimeout ''timeout''),
              RunBlock 0]))
     = [(2, failure ''Session stopped by user.'' ''USER_STOPPED'')]"
  by (simp add: run_def overlappingScans_def workingPlatform_def initialRuntime_def initialManager_def
      scanWithCallback_def stopSession_def startSession_def resetState_def emitResult_def
      emitResultIfNeeded_def didInvalidateWithError_def cleanupSession_def invalidate_def Let_def)

section \<open>Properties of the plugin class\<close>

subsection \<open>Availability\<close>

text \<open>
  Claim C5. \<open>available()\<close> never rejects: in every environment and every state of the
  object it resolves with a boolean, also when the class \<open>NFCManager\<close> was not found,
  when the call into the native manager raises and when reading
  \<open>NFCNDEFReaderSession.readingAvailable\<close> raises. Where NFC is absent (no probe answers
  \<open>true\<close>: each answers \<open>false\<close> or raises) it resolves with \<open>false\<close>. The selector
  test \<open>NSObject.instancesRespondToSelector\<close>, which the source makes outside its
  \<open>try\<close>, is a call on the root class of the runtime and is taken to return.
\<close>

theorem available_never_rejects:
  "(\<exists>b. available env nfc = Resolved b)
   \<and> (jsReadingAvailable env \<noteq> Ok True \<and> \<not> isAvailable (native env)
        \<longrightarrow> available env nfc = Resolved False)"
  by (auto simp: available_def available_static_def split: option.splits outcome.splits)

text \<open>The theorem where the framework is missing and the manager was not found.\<close>

theorem available_never_rejects_witness:
  "jsReadingAvailable missingFramework \<noteq> Ok True \<and> \<not> isAvailable (native missingFramework)
   \<and> available missingFramework (newNfc None) = Resolved False"
  using available_never_rejects [of missingFramework "newNfc None"]
  by (simp add: missingFramework_def isAvailable_def)

text \<open>
  Claim C9. \<open>enabled()\<close> is observably the same as \<open>available()\<close>: in every
  environment and state the two calls settle with the same result.
\<close>

theorem enabled_is_available: "enabled env nfc = available env nfc"
  by (simp add: enabled_def)

subsection \<open>Stopping\<close>

lemma stopSession_twice: "stopSession (stopSession w) = stopSession w"
  by (simp add: stopSession_def cleanupSession_def emitResult_def invalidate_def Let_def
      split: option.splits)

lemma invalidateSession_twice:
  "invalidateSession env (invalidateSession env nfc) = invalidateSession env nfc"
  by (simp add: invalidateSession_def Let_def stopSession_twice split: option.splits outcome.splits)

text \<open>
  Claim C6. \<open>stopListening()\<close> resolves (with \<open>true\<close>) in every state, also with no
  session started and after a previous stop, and calling it twice in a row is the same
  as calling it once: the second call resolves too and leaves the object, the native
  manager, the main queue and the record of invalidated sessions as the first call left
  them. (\<open>invalidateSession()\<close> on a CoreNFC session is taken to return.)
\<close>

theorem stopListening_idempotent:
  "snd (stopListening env nfc) = Resolved True
   \<and> stopListening env (fst (stopListening env nfc)) = stopListening env nfc"
  by (simp add: stopListening_def invalidateSession_twice)

text \<open>
  Stopping a scan that is under way: the first stop emits the "stopped" result and
  invalidates the session, the second changes nothing.
\<close>

lemma stopListening_active_scan:
  "nativeManager (fst (stopListening workingEnvironment
       \<lparr> nativeManager = Some (scanWithCallback workingPlatform 1 initialRuntime), session = None,
         sessionInvalidations = [] \<rparr>))
     = Some (initialRuntime
         \<lparr> manager := initialManager \<lparr> resultCallback := Some 1, hasEmittedResult := True \<rparr>,
           mainQueue := [EmitBlock (failure ''Session stopped by user.'' ''USER_STOPPED'')],
           invalidated := [0], created := 1 \<rparr>)"
  by (simp add: stopListening_def invalidateSession_def workingEnvironment_def workingPlatform_def
      initialRuntime_def initialManager_def scanWithCallback_def stopSession_def startSession_def
      resetState_def emitResult_def cleanupSession_def invalidate_def Let_def)

subsection \<open>Writing\<close>

text \<open>
  Claim C7, as amended. For every \<open>WriteTagOptions\<close> with neither a URI record nor a
  text record (each list absent or empty) \<open>writeTag\<close> rejects and leaves the object as
  it was: with the reason \<open>No URI record provided for writing\<close> when the native manager
  was initialised, and with \<open>NFC write not available - native manager not initialized\<close>
  when it was not.
\<close>

theorem writeTag_without_records:
  assumes "noRecords (uriRecords arg)" and "noRecords (textRecords arg)"
  shows "writeTag env arg callback nfc =
           (nfc, Rejected (if nativeManager nfc = None
                           then ''NFC write not available - native manager not initialized''
                           else ''No URI record provided for writing''))"
  using assms
  by (auto simp: writeTag_def extractUrl_def noRecords_def split: option.splits list.splits)

text \<open>The theorem at \<open>emptyOptions\<close>, with the native manager initialised.\<close>

theorem writeTag_without_records_witness:
  "noRecords (uriRecords emptyOptions) \<and> noRecords (textRecords emptyOptions)
   \<and> writeTag workingEnvironment emptyOptions 1 (newNfc (Some (Ok ())))
       = (newNfc (Some (Ok ())), Rejected ''No URI record provided for writing'')"
  using writeTag_without_records [of emptyOptions workingEnvironment 1 "newNfc (Some (Ok ()))"]
  by (simp add: emptyOptions_def noRecords_def newNfc_def initializeNativeManager_def)

text \<open>
  Claim C7 as stated promises the "no data supplied" error for every such argument.
  Where the native manager was not found, the rejection is another one.
\<close>

theorem writeTag_without_records_no_manager:
  "noRecords (uriRecords emptyOptions) \<and> noRecords (textRecords emptyOptions)
   \<and> snd (writeTag workingEnvironment emptyOptions 1 (newNfc None))
       = Rejected ''NFC write not available - native manager not initialized''
   \<and> snd (writeTag workingEnvironment emptyOptions 1 (newNfc None))
       \<noteq> Rejected ''No URI record provided for writing''"
  by (simp add: writeTag_def emptyOptions_def noRecords_def newNfc_def initializeNativeManager_def)

text \<open>
  Claim C10, as amended. For every \<open>WriteTagOptions\<close> that supplies text records only
  (a non-empty \<open>textRecords\<close> list, \<open>uriRecords\<close> absent or empty) \<open>writeTag\<close> rejects
  before any native write session is started and leaves the object, with the state of
  its native manager, unchanged: with the reason
  \<open>Writing text records not supported. Please provide a URI record.\<close> when the native
  manager was initialised, and with
  \<open>NFC write not available - native manager not initialized\<close> when it was not.
\<close>

theorem writeTag_text_only:
  assumes "noRecords (uriRecords arg)" and "\<not> noRecords (textRecords arg)"
  shows "writeTag env arg callback nfc =
           (nfc, Rejected (if nativeManager nfc = None
                           then ''NFC write not available - native manager not initialized''
                           else ''Writing text records not supported. Please provide a URI record.''))"
  using assms
  by (auto simp: writeTag_def extractUrl_def noRecords_def split: option.splits list.splits)

text \<open>The theorem at \<open>textOnlyOptions\<close>, with the native manager initialised.\<close>

theorem writeTag_text_only_witness:
  "noRecords (uriRecords textOnlyOptions) \<and> \<not> noRecords (textRecords textOnlyOptions)
   \<and> writeTag workingEnvironment textOnlyOptions 1 (newNfc (Some (Ok ())))
       = (newNfc (Some (Ok ())),
          Rejected ''Writing text records not supported. Please provide a URI record.'')"
  using writeTag_text_only [of textOnlyOptions workingEnvironment 1 "newNfc (Some (Ok ()))"]
  by (simp add: textOnlyOptions_def noRecords_def newNfc_def initializeNativeManager_def)

text \<open>
  Claim C10 as stated promises the "not supported" error for every such argument.
  Where the native manager was not found, the rejection is another one.
\<close>

theorem writeTag_text_only_no_manager:
  "noRecords (uriRecords textOnlyOptions) \<and> \<not> noRecords (textRecords textOnlyOptions)
   \<and> snd (writeTag workingEnvironment textOnlyOptions 1 (newNfc None))
       = Rejected ''NFC write not available - native manager not initialized''
   \<and> snd (writeTag workingEnvironment textOnlyOptions 1 (newNfc None))
       \<noteq> Rejected ''Writing text records not supported. Please provide a URI record.''"
  by (simp add: writeTag_def textOnlyOptions_def noRecords_def newNfc_def initializeNativeManager_def)

text \<open>
  With a URI record the write session is asked for: the promise stays pending, and the
  native manager holds the callback and the url.
\<close>

lemma writeTag_uri_starts_session:
  "writeTag workingEnvironment \<lparr> uriRecords = Some [\<lparr> uri = ''https://example.com'' \<rparr>], textRecords = None \<rparr>
       1 (newNfc (Some (Ok ())))
     = (\<lparr> nativeManager = Some (writeWithUrlCallback workingPlatform ''https://example.com'' 1 initialRuntime),
          session = None, sessionInvalidations = [] \<rparr>, Pending)"
  by (simp add: writeTag_def extractUrl_def newNfc_def initializeNativeManager_def workingEnvironment_def)


end
